theory Spec2Isabelle
  imports Complex_Main
begin

section \<open>Numbers, errors and vectors\<close>

text \<open>
  The simulation (\<^verbatim>\<open>src/assets/js/orbital_sim.js\<close>) computes with JavaScript numbers.
  The orbit and its integrator are modelled with \<^typ>\<open>real\<close> for every finite number,
  with exact arithmetic: rounding and overflow are not modelled there. Where an operation
  of the source produces \<^verbatim>\<open>Infinity\<close> or \<^verbatim>\<open>NaN\<close> from finite operands (a division
  by zero, the angle with a zero vector) the source does not throw: it goes on with that
  value. A real number cannot hold such a value, so the model stops there with
  \<open>Inl NonFinite\<close> and says nothing about what the source does next. The two other
  errors are exceptions of the language: reading a variable that was never assigned, and
  calling a method on \<^verbatim>\<open>undefined\<close> (an array read out of range).

  The functions of the sweep area are modelled in double precision, with every rounding
  of the source: what they return depends on it.
\<close>

datatype js_error = ReferenceError | TypeError | NonFinite

text \<open>
  Vectors are the two-dimensional vectors of the p5.js library (\<^verbatim>\<open>createVector(x, y)\<close>,
  third component zero). The library is not part of the repository; its methods are
  written out here from their documented behaviour. Every method of the source is
  called on a fresh \<^verbatim>\<open>copy()\<close>, so vectors are plain values.
\<close>

datatype vec = Vec (vx: real) (vy: real)

definition createVector :: "real \<Rightarrow> real \<Rightarrow> vec" where
  "createVector a b = Vec a b"

definition add_vec :: "vec \<Rightarrow> vec \<Rightarrow> vec" where
  "add_vec u w = Vec (vx u + vx w) (vy u + vy w)"


definition mult_vec :: "vec \<Rightarrow> real \<Rightarrow> vec" where
  "mult_vec u n = Vec (vx u * n) (vy u * n)"

text \<open>\<^verbatim>\<open>v.div(n)\<close> leaves the vector as it is when \<open>n\<close> is zero.\<close>

definition div_vec :: "vec \<Rightarrow> real \<Rightarrow> vec" where
  "div_vec u n = (if n = 0 then u else Vec (vx u / n) (vy u / n))"

definition magSq :: "vec \<Rightarrow> real" where
  "magSq u = vx u * vx u + vy u * vy u"

definition mag :: "vec \<Rightarrow> real" where
  "mag u = sqrt (magSq u)"

text \<open>\<^verbatim>\<open>v.normalize()\<close> leaves the zero vector as it is.\<close>

definition normalize_vec :: "vec \<Rightarrow> vec" where
  "normalize_vec u = (if mag u = 0 then u else mult_vec u (1 / mag u))"


definition dot :: "vec \<Rightarrow> vec \<Rightarrow> real" where
  "dot u w = vx u * vx w + vy u * vy w"

definition cross_z :: "vec \<Rightarrow> vec \<Rightarrow> real" where
  "cross_z u w = vx u * vy w - vy u * vx w"

text \<open>
  \<^verbatim>\<open>u.angleBetween(w)\<close>: the angle between the two vectors, between \<open>-\<pi>\<close> and \<open>\<pi>\<close>,
  signed by the orientation of the pair (\<^verbatim>\<open>Math.sign(cross.z || 1)\<close>); \<^verbatim>\<open>NaN\<close> when
  either vector is zero. The cosine is clamped to \<open>[-1, 1]\<close> as the library does.
\<close>

definition angleBetween :: "vec \<Rightarrow> vec \<Rightarrow> js_error + real" where
  "angleBetween u w =
     (if magSq u * magSq w = 0 then Inl NonFinite
      else Inr (arccos (min 1 (max (- 1) (dot u w / (mag u * mag w))))
                * (if cross_z u w < 0 then - 1 else 1)))"

section \<open>The orbit and the implicit globals\<close>

text \<open>The object built by \<^verbatim>\<open>createNewOrbit\<close>.\<close>

record orbit =
  xPlanet :: vec
  vPlanet :: vec
  isFirstOrbit :: bool
  angularChangeThisOrbit :: real
  firstOrbitPath :: "vec list"
  currSnapIndex :: nat
  currSnapSubindex :: real
  indexCarryOver :: real

text \<open>
  \<^verbatim>\<open>updatePlanet_Iterative\<close> assigns \<^verbatim>\<open>vNext\<close>, \<^verbatim>\<open>vAvg\<close> and \<^verbatim>\<open>xNext\<close> without
  declaring them. The file is a classic script without \<^verbatim>\<open>"use strict"\<close>, so they are
  properties of the global object, created by the first assignment and kept between
  calls. \<open>None\<close> is a variable that was never assigned.
\<close>

record globals =
  vNext :: "vec option"
  vAvg :: "vec option"
  xNext :: "vec option"

definition createNewOrbit :: "vec \<Rightarrow> orbit" where
  "createNewOrbit v0 =
     \<lparr> xPlanet = createVector 0 (- 1),
       vPlanet = v0,
       isFirstOrbit = True,
       angularChangeThisOrbit = 0,
       firstOrbitPath = [createVector 0 (- 1)],
       currSnapIndex = 0,
       currSnapSubindex = 0,
       indexCarryOver = 0 \<rparr>"

section \<open>The integrator\<close>

text \<open>
  One pass of the loop of \<^verbatim>\<open>updatePlanet_Iterative\<close>. \<^verbatim>\<open>-G / xAvg.magSq()\<close> divides
  by zero when the mean position is the origin.
\<close>

definition iterate_pass ::
  "real \<Rightarrow> real \<Rightarrow> vec \<Rightarrow> vec \<Rightarrow> vec \<times> globals \<Rightarrow> js_error + (vec \<times> globals)" where
  "iterate_pass G dt vCurr xCurr s =
     (case s of (xAvg, g) \<Rightarrow>
        if magSq xAvg = 0 then Inl NonFinite
        else
          let a = mult_vec (normalize_vec xAvg) (- G / magSq xAvg);
              vN = add_vec vCurr (mult_vec a dt);
              vA = div_vec (add_vec vCurr vN) 2;
              xN = add_vec xCurr (mult_vec vA dt);
              xAvg' = div_vec (add_vec xCurr xN) 2
          in Inr (xAvg', g\<lparr>vNext := Some vN, vAvg := Some vA, xNext := Some xN\<rparr>))"

text \<open>\<^verbatim>\<open>for (let i=0; i<iterCount; i++)\<close>: the first argument is the number of passes left.\<close>

fun iterate_loop ::
  "nat \<Rightarrow> real \<Rightarrow> real \<Rightarrow> vec \<Rightarrow> vec \<Rightarrow> vec \<times> globals \<Rightarrow> js_error + (vec \<times> globals)" where
  "iterate_loop 0 G dt vCurr xCurr s = Inr s"
| "iterate_loop (Suc n) G dt vCurr xCurr s =
     (case iterate_pass G dt vCurr xCurr s of
        Inl e \<Rightarrow> Inl e
      | Inr s' \<Rightarrow> iterate_loop n G dt vCurr xCurr s')"

text \<open>
  After the loop the function reads the globals \<^verbatim>\<open>vNext\<close> and \<^verbatim>\<open>xNext\<close>, whatever
  the loop did.
\<close>

definition updatePlanet_Iterative ::
  "nat \<Rightarrow> real \<Rightarrow> real \<Rightarrow> orbit \<times> globals \<Rightarrow> js_error + (orbit \<times> globals)" where
  "updatePlanet_Iterative iterCount G dt s =
     (case s of (orb, g) \<Rightarrow>
        (case iterate_loop iterCount G dt (vPlanet orb) (xPlanet orb) (xPlanet orb, g) of
           Inl e \<Rightarrow> Inl e
         | Inr (xAvg, g') \<Rightarrow>
             (case vNext g' of
                None \<Rightarrow> Inl ReferenceError
              | Some v \<Rightarrow>
                  (case xNext g' of
                     None \<Rightarrow> Inl ReferenceError
                   | Some x \<Rightarrow> Inr (orb\<lparr>vPlanet := v, xPlanet := x\<rparr>, g')))))"

fun subdivide_loop ::
  "nat \<Rightarrow> nat \<Rightarrow> real \<Rightarrow> real \<Rightarrow> orbit \<times> globals \<Rightarrow> js_error + (orbit \<times> globals)" where
  "subdivide_loop 0 iterCount G h s = Inr s"
| "subdivide_loop (Suc n) iterCount G h s =
     (case updatePlanet_Iterative iterCount G h s of
        Inl e \<Rightarrow> Inl e
      | Inr s' \<Rightarrow> subdivide_loop n iterCount G h s')"

definition updatePlanet_Iterative_Subdivided ::
  "nat \<Rightarrow> nat \<Rightarrow> real \<Rightarrow> real \<Rightarrow> orbit \<times> globals \<Rightarrow> js_error + (orbit \<times> globals)" where
  "updatePlanet_Iterative_Subdivided iterCount subdivCount G dt s =
     subdivide_loop subdivCount iterCount G (dt / real subdivCount) s"

section \<open>Replaying the first orbit\<close>

text \<open>
  \<^verbatim>\<open>interpolatePosition\<close>: \<^verbatim>\<open>path[index]\<close> is \<^verbatim>\<open>undefined\<close> when the index is not
  below the length, and \<^verbatim>\<open>p1.copy()\<close> then throws. When it is below the length the
  path is not empty and the second read is in range.
\<close>

definition interpolatePosition :: "vec list \<Rightarrow> nat \<Rightarrow> real \<Rightarrow> js_error + vec" where
  "interpolatePosition path index subindex =
     (if index < length path then
        (let p1 = path ! index;
             p2 = path ! ((index + 1) mod length path)
         in Inr (add_vec (mult_vec p1 subindex) (mult_vec p2 (1 - subindex))))
      else Inl TypeError)"

section \<open>Double-precision arithmetic\<close>


definition round_half_even :: "real \<Rightarrow> int" where
  "round_half_even y =
     (let f = \<lfloor>y\<rfloor> in
      if y - of_int f < 1 / 2 then f
      else if y - of_int f > 1 / 2 then f + 1
      else if even f then f else f + 1)"










section \<open>Sweep areas\<close>








section \<open>The tick\<close>

text \<open>
  The body of \<^verbatim>\<open>if (stateIsOrbiting)\<close> in \<^verbatim>\<open>draw\<close>, as far as it changes the orbit.
  First the branch \<^verbatim>\<open>if (orbit.isFirstOrbit)\<close>. The path holds at least two points
  after the push unless it was empty, and \<^verbatim>\<open>xPlanetPrev\<close> is \<^verbatim>\<open>undefined\<close> then.
  \<^verbatim>\<open>angleCarryOver\<close> and \<^verbatim>\<open>firstStepAngle\<close> are implicit globals too, written before
  they are read; they are local here. At the division \<^verbatim>\<open>angleCarryOver\<close> is positive,
  so a zero \<^verbatim>\<open>firstStepAngle\<close> gives \<^verbatim>\<open>Infinity\<close>.
\<close>

definition draw_first_orbit ::
  "real \<Rightarrow> real \<Rightarrow> orbit \<times> globals \<Rightarrow> js_error + (orbit \<times> globals)" where
  "draw_first_orbit G dt s =
     (case updatePlanet_Iterative_Subdivided 5 25 G dt s of
        Inl e \<Rightarrow> Inl e
      | Inr (orb1, g1) \<Rightarrow>
          let path = firstOrbitPath orb1 @ [xPlanet orb1] in
          if length path < 2 then Inl TypeError
          else
            let xPlanetPrev = path ! (length path - 2) in
            (case angleBetween xPlanetPrev (xPlanet orb1) of
               Inl e \<Rightarrow> Inl e
             | Inr ang \<Rightarrow>
                 let orb2 = orb1\<lparr>firstOrbitPath := path,
                                 angularChangeThisOrbit := angularChangeThisOrbit orb1 + \<bar>ang\<bar>\<rparr>
                 in
                 if angularChangeThisOrbit orb2 > pi * 2 then
                   (let angleCarryOver = angularChangeThisOrbit orb2 - pi * 2 in
                    case angleBetween (path ! 1) (path ! 0) of
                      Inl e \<Rightarrow> Inl e
                    | Inr fs \<Rightarrow>
                        let firstStepAngle = \<bar>fs\<bar> in
                        if firstStepAngle = 0 then Inl NonFinite
                        else Inr (orb2\<lparr>isFirstOrbit := False,
                                       indexCarryOver := angleCarryOver / firstStepAngle,
                                       currSnapIndex := 0,
                                       currSnapSubindex := angleCarryOver / firstStepAngle\<rparr>, g1))
                 else Inr (orb2, g1)))"

text \<open>The \<^verbatim>\<open>else\<close> branch: the planet snaps to the recorded path.\<close>

definition draw_snap :: "orbit \<Rightarrow> js_error + orbit" where
  "draw_snap orb =
     (let orb1 = orb\<lparr>currSnapIndex := currSnapIndex orb + 1\<rparr>;
          orb2 =
            (if currSnapIndex orb1 = length (firstOrbitPath orb1) then
               (let orb3 = orb1\<lparr>currSnapIndex := 0,
                                currSnapSubindex := currSnapSubindex orb1 + indexCarryOver orb1\<rparr>
                in if currSnapSubindex orb3 \<ge> 1
                   then orb3\<lparr>currSnapIndex := currSnapIndex orb3 + 1,
                             currSnapSubindex := currSnapSubindex orb3 - 1\<rparr>
                   else orb3)
             else orb1)
      in case interpolatePosition (firstOrbitPath orb2) (currSnapIndex orb2) (currSnapSubindex orb2) of
           Inl e \<Rightarrow> Inl e
         | Inr p \<Rightarrow> Inr (orb2\<lparr>xPlanet := p\<rparr>))"

definition draw_orbit ::
  "real \<Rightarrow> real \<Rightarrow> orbit \<times> globals \<Rightarrow> js_error + (orbit \<times> globals)" where
  "draw_orbit G dt s =
     (case s of (orb, g) \<Rightarrow>
        if isFirstOrbit orb then draw_first_orbit G dt (orb, g)
        else (case draw_snap orb of Inl e \<Rightarrow> Inl e | Inr orb' \<Rightarrow> Inr (orb', g)))"

text \<open>Several ticks in a row; the run stops at the first error.\<close>

fun ticks :: "nat \<Rightarrow> real \<Rightarrow> real \<Rightarrow> orbit \<times> globals \<Rightarrow> js_error + (orbit \<times> globals)" where
  "ticks 0 G dt s = Inr s"
| "ticks (Suc n) G dt s =
     (case draw_orbit G dt s of Inl e \<Rightarrow> Inl e | Inr s' \<Rightarrow> ticks n G dt s')"

section \<open>The specification's description of the integrator and of the sweep area\<close>

text \<open>
  The integrator as the specification words it: the acceleration is
  \<open>- gravitationalParam * normalize(meanPosition) / |meanPosition|\<^sup>2\<close>, then
  \<open>velocityNext\<close>, \<open>meanVelocity\<close>, \<open>positionNext\<close> and the new \<open>meanPosition\<close>.
  \<open>spec_meanPosition k\<close> is the running mean position after \<open>k\<close> passes.
\<close>

definition spec_acceleration :: "real \<Rightarrow> vec \<Rightarrow> vec" where
  "spec_acceleration gravitationalParam meanPosition =
     div_vec (mult_vec (normalize_vec meanPosition) (- gravitationalParam)) ((mag meanPosition)\<^sup>2)"

definition spec_velocityNext :: "real \<Rightarrow> real \<Rightarrow> vec \<Rightarrow> vec \<Rightarrow> vec" where
  "spec_velocityNext gravitationalParam timeStep velocityCurrent meanPosition =
     add_vec velocityCurrent (mult_vec (spec_acceleration gravitationalParam meanPosition) timeStep)"

definition spec_meanVelocity :: "real \<Rightarrow> real \<Rightarrow> vec \<Rightarrow> vec \<Rightarrow> vec" where
  "spec_meanVelocity gravitationalParam timeStep velocityCurrent meanPosition =
     div_vec (add_vec velocityCurrent
                (spec_velocityNext gravitationalParam timeStep velocityCurrent meanPosition)) 2"

definition spec_positionNext :: "real \<Rightarrow> real \<Rightarrow> vec \<Rightarrow> vec \<Rightarrow> vec \<Rightarrow> vec" where
  "spec_positionNext gravitationalParam timeStep velocityCurrent positionCurrent meanPosition =
     add_vec positionCurrent
       (mult_vec (spec_meanVelocity gravitationalParam timeStep velocityCurrent meanPosition) timeStep)"

fun spec_meanPosition :: "nat \<Rightarrow> real \<Rightarrow> real \<Rightarrow> vec \<Rightarrow> vec \<Rightarrow> vec" where
  "spec_meanPosition 0 gravitationalParam timeStep velocityCurrent positionCurrent = positionCurrent"
| "spec_meanPosition (Suc k) gravitationalParam timeStep velocityCurrent positionCurrent =
     div_vec (add_vec positionCurrent
                (spec_positionNext gravitationalParam timeStep velocityCurrent positionCurrent
                   (spec_meanPosition k gravitationalParam timeStep velocityCurrent positionCurrent))) 2"

text \<open>The globals as a pass from the mean position \<open>m\<close> leaves them.\<close>

definition spec_globals :: "real \<Rightarrow> real \<Rightarrow> vec \<Rightarrow> vec \<Rightarrow> vec \<Rightarrow> globals \<Rightarrow> globals" where
  "spec_globals G dt v x m g =
     g\<lparr>vNext := Some (spec_velocityNext G dt v m),
       vAvg := Some (spec_meanVelocity G dt v m),
       xNext := Some (spec_positionNext G dt v x m)\<rparr>"









section \<open>Auxiliary definitions and example states\<close>


text \<open>The globals after a pass in which the velocity \<open>v\<close> did not change.\<close>

definition coast :: "vec \<Rightarrow> vec \<Rightarrow> real \<Rightarrow> globals \<Rightarrow> globals" where
  "coast x v h g = g\<lparr>vNext := Some v, vAvg := Some v, xNext := Some (add_vec x (mult_vec v h))\<rparr>"

text \<open>
  Example states of the tracker. Their recorded paths are polygons around the origin whose
  steps are eighths and quarters of a turn, so that every angle is known exactly, and
  \<^verbatim>\<open>angularChangeThisOrbit\<close> is the sum of the steps' angles. The ticks on them are
  computed with \<open>G = 0\<close> and \<open>dt = 1\<close>: the planet then moves on a straight line and
  the integrator's result is exact.

  \<open>closing_orbit\<close> is in its first orbit and has come back to \<open>(0, -1)\<close> after exactly
  one turn; its first recorded step was an eighth of a turn. The next tick takes it to
  \<open>(1, 0)\<close>, a quarter turn further.
\<close>

definition closing_orbit :: orbit where
  "closing_orbit =
     \<lparr> xPlanet = Vec 0 (- 1),
       vPlanet = Vec 1 1,
       isFirstOrbit = True,
       angularChangeThisOrbit = 2 * pi,
       firstOrbitPath = [Vec 0 (- 1), Vec 1 (- 1), Vec 1 0, Vec 0 1, Vec (- 1) 0, Vec 0 (- 1)],
       currSnapIndex = 0,
       currSnapSubindex = 0,
       indexCarryOver = 0 \<rparr>"

text \<open>The same, with a first recorded step along the ray from the origin.\<close>

definition radial_start_orbit :: orbit where
  "radial_start_orbit =
     closing_orbit\<lparr>firstOrbitPath :=
       [Vec 0 (- 1), Vec 0 (- 2), Vec 1 0, Vec 0 1, Vec (- 1) 0, Vec 0 (- 1)]\<rparr>"

text \<open>
  A tracker that closed its orbit an eighth of a turn past the start, after a first step
  of a quarter turn (\<^verbatim>\<open>indexCarryOver\<close> is \<open>1/2\<close>), and now replays the last point of
  the path.
\<close>

definition replaying_orbit :: orbit where
  "replaying_orbit =
     \<lparr> xPlanet = Vec (1 / 2) (- 1),
       vPlanet = Vec 1 0,
       isFirstOrbit = False,
       angularChangeThisOrbit = 9 * pi / 4,
       firstOrbitPath = [Vec 0 (- 1), Vec 1 0, Vec 0 1, Vec (- 1) 0, Vec 0 (- 1), Vec 1 (- 1)],
       currSnapIndex = 5,
       currSnapSubindex = 1 / 2,
       indexCarryOver = 1 / 2 \<rparr>"

text \<open>No global has been assigned yet.\<close>

definition fresh_globals :: globals where
  "fresh_globals = \<lparr> vNext = None, vAvg = None, xNext = None \<rparr>"

text \<open>The state and the globals that the closing tick leaves from \<open>closing_orbit\<close>.\<close>

definition closed_orbit :: orbit where
  "closed_orbit =
     \<lparr> xPlanet = Vec 1 0,
       vPlanet = Vec 1 1,
       isFirstOrbit = False,
       angularChangeThisOrbit = 5 * pi / 2,
       firstOrbitPath =
         [Vec 0 (- 1), Vec 1 (- 1), Vec 1 0, Vec 0 1, Vec (- 1) 0, Vec 0 (- 1), Vec 1 0],
       currSnapIndex = 0,
       currSnapSubindex = 2,
       indexCarryOver = 2 \<rparr>"

definition coasted_globals :: globals where
  "coasted_globals =
     \<lparr> vNext = Some (Vec 1 1), vAvg = Some (Vec 1 1), xNext = Some (Vec 1 0) \<rparr>"


section \<open>Vectors: basic facts\<close>

lemma magSq_nonneg: "0 \<le> magSq u"
  by (simp add: magSq_def)

lemma magSq_zero_iff: "magSq u = 0 \<longleftrightarrow> u = Vec 0 0"
  by (cases u) (simp add: magSq_def sum_squares_eq_zero_iff flip: power2_eq_square)

lemma mag_squared: "(mag u)\<^sup>2 = magSq u"
  by (simp add: mag_def magSq_nonneg)

lemma mag_axis: "mag (Vec 0 b) = \<bar>b\<bar>"
  by (simp add: mag_def magSq_def flip: power2_eq_square)






section \<open>The integrator against its specification\<close>

text \<open>The loop, read from its last pass.\<close>

lemma iterate_loop_snoc:
  "iterate_loop (Suc n) G dt v x s =
     (case iterate_loop n G dt v x s of Inl e \<Rightarrow> Inl e | Inr s1 \<Rightarrow> iterate_pass G dt v x s1)"
proof (induction n arbitrary: s)
  case 0
  show ?case by (simp split: sum.splits)
next
  case (Suc n)
  show ?case
  proof (cases "iterate_pass G dt v x s")
    case (Inl e)
    then show ?thesis by simp
  next
    case (Inr s')
    have "iterate_loop (Suc (Suc n)) G dt v x s = iterate_loop (Suc n) G dt v x s'"
      using Inr by simp
    also have "\<dots> = (case iterate_loop n G dt v x s' of
                       Inl e \<Rightarrow> Inl e | Inr s1 \<Rightarrow> iterate_pass G dt v x s1)"
      by (rule Suc.IH)
    also have "iterate_loop n G dt v x s' = iterate_loop (Suc n) G dt v x s"
      using Inr by simp
    finally show ?thesis .
  qed
qed

lemma iterate_pass_sets:
  "iterate_pass G dt v x s = Inr (m, g') \<Longrightarrow> vNext g' \<noteq> None \<and> xNext g' \<noteq> None"
  by (cases s) (auto simp: iterate_pass_def Let_def split: if_splits)

lemma iterate_pass_spec:
  "iterate_pass G dt v x (m, g) =
     (if m = Vec 0 0 then Inl NonFinite
      else Inr (div_vec (add_vec x (spec_positionNext G dt v x m)) 2, spec_globals G dt v x m g))"
proof (cases "m = Vec 0 0")
  case True
  then show ?thesis by (simp add: iterate_pass_def magSq_def)
next
  case False
  then have nz: "magSq m \<noteq> 0" by (simp add: magSq_zero_iff)
  have acc: "mult_vec (normalize_vec m) (- G / magSq m) = spec_acceleration G m"
    using nz by (simp add: spec_acceleration_def mag_squared div_vec_def mult_vec_def)
  have acc': "mult_vec (normalize_vec m) (- (G / magSq m)) = spec_acceleration G m"
    using acc by simp
  show ?thesis
    using False nz
    by (simp add: iterate_pass_def Let_def acc' spec_globals_def spec_positionNext_def
        spec_meanVelocity_def spec_velocityNext_def)
qed

lemma spec_globals_twice:
  "spec_globals G dt v x m (spec_globals G dt v x m' g) = spec_globals G dt v x m g"
  by (simp add: spec_globals_def)

lemma iterate_loop_spec:
  "iterate_loop (Suc n) G dt v x (x, g) =
     (if \<forall>k<Suc n. spec_meanPosition k G dt v x \<noteq> Vec 0 0
      then Inr (spec_meanPosition (Suc n) G dt v x,
                spec_globals G dt v x (spec_meanPosition n G dt v x) g)
      else Inl NonFinite)"
proof (induction n)
  case 0
  show ?case by (simp add: iterate_pass_spec)
next
  case (Suc n)
  show ?case
    unfolding iterate_loop_snoc [of "Suc n"] Suc.IH
    by (auto simp: iterate_pass_spec spec_globals_twice less_Suc_eq)
qed

lemma updatePlanet_Iterative_spec:
  assumes "0 < iterations"
  shows "updatePlanet_Iterative iterations G dt (orb, g) =
     (if \<forall>k<iterations. spec_meanPosition k G dt (vPlanet orb) (xPlanet orb) \<noteq> Vec 0 0
      then Inr (orb\<lparr>vPlanet := spec_velocityNext G dt (vPlanet orb)
                                  (spec_meanPosition (iterations - 1) G dt (vPlanet orb) (xPlanet orb)),
                    xPlanet := spec_positionNext G dt (vPlanet orb) (xPlanet orb)
                                  (spec_meanPosition (iterations - 1) G dt (vPlanet orb) (xPlanet orb))\<rparr>,
                spec_globals G dt (vPlanet orb) (xPlanet orb)
                  (spec_meanPosition (iterations - 1) G dt (vPlanet orb) (xPlanet orb)) g)
      else Inl NonFinite)"
proof -
  obtain n where n: "iterations = Suc n" using assms by (cases iterations) auto
  show ?thesis
    unfolding n updatePlanet_Iterative_def
    by (simp only: prod.case iterate_loop_spec) (simp add: spec_globals_def)
qed

lemmas spec_pass_defs =
  spec_positionNext_def spec_meanVelocity_def spec_velocityNext_def spec_acceleration_def
  add_vec_def mult_vec_def div_vec_def normalize_vec_def mag_axis

lemma falling_mean_1: "spec_meanPosition (Suc 0) 1 1 (Vec 0 0) (Vec 0 (- 1)) = Vec 0 (- (3/4))"
  by (simp add: spec_pass_defs)

lemma falling_means_nonzero: "\<forall>k<2. spec_meanPosition k 1 1 (Vec 0 0) (Vec 0 (- 1)) \<noteq> Vec 0 0"
proof (intro allI impI)
  fix k :: nat assume "k < 2"
  then consider "k = 0" | "k = Suc 0" by linarith
  then show "spec_meanPosition k 1 1 (Vec 0 0) (Vec 0 (- 1)) \<noteq> Vec 0 0"
  proof cases
    case 1
    then show ?thesis by simp
  next
    case 2
    show ?thesis unfolding 2 falling_mean_1 by simp
  qed
qed

text \<open>
  C4. For a positive number of iterations, \<^verbatim>\<open>updatePlanet_Iterative\<close> runs exactly that
  many passes of the specification's five steps, each from the running mean position, and
  commits the \<open>velocityNext\<close> and \<open>positionNext\<close> of the last pass, that is of the pass
  that starts from the mean position after \<open>iterations - 1\<close> passes; nothing tests for
  convergence. This holds as long as no mean position is the origin; when one is,
  \<^verbatim>\<open>-G / xAvg.magSq()\<close> is a division by zero.
\<close>

theorem updatePlanet_Iterative_fixed_passes:
  assumes "0 < iterations"
  shows "updatePlanet_Iterative iterations G dt (orb, g) =
     (if \<forall>k<iterations. spec_meanPosition k G dt (vPlanet orb) (xPlanet orb) \<noteq> Vec 0 0
      then Inr (orb\<lparr>vPlanet := spec_velocityNext G dt (vPlanet orb)
                                  (spec_meanPosition (iterations - 1) G dt (vPlanet orb) (xPlanet orb)),
                    xPlanet := spec_positionNext G dt (vPlanet orb) (xPlanet orb)
                                  (spec_meanPosition (iterations - 1) G dt (vPlanet orb) (xPlanet orb))\<rparr>,
                spec_globals G dt (vPlanet orb) (xPlanet orb)
                  (spec_meanPosition (iterations - 1) G dt (vPlanet orb) (xPlanet orb)) g)
      else Inl NonFinite)"
  using assms by (rule updatePlanet_Iterative_spec)

text \<open>
  A planet at rest at \<open>(0, -1)\<close>, two passes with \<open>G = 1\<close> and \<open>dt = 1\<close>: the mean
  positions are \<open>(0, -1)\<close> and \<open>(0, -3/4)\<close>, and the second pass commits the velocity
  \<open>(0, 16/9)\<close> and the position \<open>(0, -1/9)\<close>.
\<close>

theorem updatePlanet_Iterative_fixed_passes_witness:
  "(0::nat) < 2 \<and>
   spec_meanPosition 0 1 1 (Vec 0 0) (Vec 0 (- 1)) = Vec 0 (- 1) \<and>
   spec_meanPosition 1 1 1 (Vec 0 0) (Vec 0 (- 1)) = Vec 0 (- (3/4)) \<and>
   updatePlanet_Iterative 2 1 1 (createNewOrbit (Vec 0 0), fresh_globals) =
     Inr ((createNewOrbit (Vec 0 0))\<lparr>vPlanet := Vec 0 (16/9), xPlanet := Vec 0 (- (1/9))\<rparr>,
          \<lparr>vNext = Some (Vec 0 (16/9)), vAvg = Some (Vec 0 (8/9)), xNext = Some (Vec 0 (- (1/9)))\<rparr>)"
proof -
  let ?orb = "createNewOrbit (Vec 0 0)"
  have x: "xPlanet ?orb = Vec 0 (- 1)" and v: "vPlanet ?orb = Vec 0 0"
    by (simp_all add: createNewOrbit_def createVector_def)
  have pos: "(0::nat) < 2" by simp
  have one: "(2::nat) - 1 = Suc 0" by simp
  note e = updatePlanet_Iterative_fixed_passes
    [where iterations = 2 and G = 1 and dt = 1 and orb = ?orb and g = fresh_globals,
      OF pos, unfolded x v one falling_mean_1]
  have "updatePlanet_Iterative 2 1 1 (?orb, fresh_globals) =
      Inr (?orb\<lparr>vPlanet := spec_velocityNext 1 1 (Vec 0 0) (Vec 0 (- (3/4))),
                 xPlanet := spec_positionNext 1 1 (Vec 0 0) (Vec 0 (- 1)) (Vec 0 (- (3/4)))\<rparr>,
           spec_globals 1 1 (Vec 0 0) (Vec 0 (- 1)) (Vec 0 (- (3/4))) fresh_globals)"
    by (simp only: e if_P [OF falling_means_nonzero])
  then have "updatePlanet_Iterative 2 1 1 (?orb, fresh_globals) =
     Inr (?orb\<lparr>vPlanet := Vec 0 (16/9), xPlanet := Vec 0 (- (1/9))\<rparr>,
          \<lparr>vNext = Some (Vec 0 (16/9)), vAvg = Some (Vec 0 (8/9)), xNext = Some (Vec 0 (- (1/9)))\<rparr>)"
    by (simp add: spec_pass_defs spec_globals_def fresh_globals_def power2_eq_square)
  with pos falling_mean_1 show ?thesis by simp
qed

lemma zero_passes_commit_globals:
  "updatePlanet_Iterative 0 G dt (orb, g) =
     (case vNext g of
        None \<Rightarrow> Inl ReferenceError
      | Some v \<Rightarrow>
          (case xNext g of
             None \<Rightarrow> Inl ReferenceError
           | Some x \<Rightarrow> Inr (orb\<lparr>vPlanet := v, xPlanet := x\<rparr>, g)))"
  by (simp add: updatePlanet_Iterative_def)

lemma orbit_update_same:
  "orb\<lparr>vPlanet := v, xPlanet := x\<rparr> = orb \<longleftrightarrow> v = vPlanet orb \<and> x = xPlanet orb"
  by (cases orb) auto

lemma zero_passes_unchanged_iff:
  "updatePlanet_Iterative 0 G dt (orb, g) = Inr (orb, g) \<longleftrightarrow>
     vNext g = Some (vPlanet orb) \<and> xNext g = Some (xPlanet orb)"
  by (auto simp: zero_passes_commit_globals orbit_update_same split: option.splits)

lemma globals_hold_committed_state:
  assumes "0 < iterCount"
    and "updatePlanet_Iterative iterCount G dt (orb, g) = Inr (orb1, g1)"
  shows "vNext g1 = Some (vPlanet orb1) \<and> xNext g1 = Some (xPlanet orb1)"
  using assms(2) unfolding updatePlanet_Iterative_spec [OF assms(1)]
  by (auto simp: spec_globals_def split: if_splits)

lemma zero_passes_after_a_pass:
  assumes "0 < iterCount"
    and "updatePlanet_Iterative iterCount G dt (orb, g) = Inr (orb1, g1)"
  shows "updatePlanet_Iterative 0 G' dt' (orb1, g1) = Inr (orb1, g1)"
  using globals_hold_committed_state [OF assms] by (simp only: zero_passes_unchanged_iff)

lemma first_pass_from_rest:
  "updatePlanet_Iterative 1 1 1 (createNewOrbit (Vec 0 0), fresh_globals) =
     Inr ((createNewOrbit (Vec 0 0))\<lparr>vPlanet := Vec 0 1, xPlanet := Vec 0 (- (1/2))\<rparr>,
          \<lparr>vNext = Some (Vec 0 1), vAvg = Some (Vec 0 (1/2)), xNext = Some (Vec 0 (- (1/2)))\<rparr>)"
proof -
  have "iterate_pass 1 1 (Vec 0 0) (Vec 0 (- 1)) (Vec 0 (- 1), fresh_globals) =
      Inr (Vec 0 (- (3/4)),
           \<lparr>vNext = Some (Vec 0 1), vAvg = Some (Vec 0 (1/2)), xNext = Some (Vec 0 (- (1/2)))\<rparr>)"
    by (simp add: iterate_pass_def Let_def magSq_def fresh_globals_def add_vec_def mult_vec_def
        div_vec_def normalize_vec_def mag_axis)
  then show ?thesis
    by (simp add: updatePlanet_Iterative_def createNewOrbit_def createVector_def)
qed

text \<open>
  C10. \<^verbatim>\<open>updatePlanet_Iterative\<close> commits the globals \<^verbatim>\<open>vNext\<close> and
  \<^verbatim>\<open>xNext\<close>, which only the loop assigns. With a positive number of iterations the
  committed state is the one the last pass produces, and it does not depend on what the
  globals held before the call. With no iteration the call computes nothing from its
  input: it commits whatever an earlier call left in the globals, and it throws
  \<^verbatim>\<open>ReferenceError\<close> when no call ever assigned them. It leaves the state unchanged
  exactly when the globals already hold the velocity and the position of the orbit, and
  they do right after any call that made a pass.
\<close>

theorem updatePlanet_Iterative_commits_globals:
  "(0 < iterCount \<longrightarrow>
      updatePlanet_Iterative iterCount G dt (orb, g) =
        (case iterate_loop (iterCount - 1) G dt (vPlanet orb) (xPlanet orb) (xPlanet orb, g) of
           Inl e \<Rightarrow> Inl e
         | Inr s1 \<Rightarrow>
             (case iterate_pass G dt (vPlanet orb) (xPlanet orb) s1 of
                Inl e \<Rightarrow> Inl e
              | Inr (xAvg, g') \<Rightarrow>
                  Inr (orb\<lparr>vPlanet := the (vNext g'), xPlanet := the (xNext g')\<rparr>, g')))) \<and>
   (0 < iterCount \<longrightarrow>
      map_sum id fst (updatePlanet_Iterative iterCount G dt (orb, g)) =
      map_sum id fst (updatePlanet_Iterative iterCount G dt (orb, g0))) \<and>
   updatePlanet_Iterative 0 G dt (orb, g) =
     (case vNext g of
        None \<Rightarrow> Inl ReferenceError
      | Some v \<Rightarrow>
          (case xNext g of
             None \<Rightarrow> Inl ReferenceError
           | Some x \<Rightarrow> Inr (orb\<lparr>vPlanet := v, xPlanet := x\<rparr>, g))) \<and>
   (updatePlanet_Iterative 0 G dt (orb, g) = Inr (orb, g) \<longleftrightarrow>
      vNext g = Some (vPlanet orb) \<and> xNext g = Some (xPlanet orb)) \<and>
   (0 < iterCount \<and> updatePlanet_Iterative iterCount G dt (orb, g) = Inr (orb1, g1) \<longrightarrow>
      updatePlanet_Iterative 0 G' dt' (orb1, g1) = Inr (orb1, g1))"
proof (intro conjI impI)
  assume "0 < iterCount"
  then obtain n where n: "iterCount = Suc n" by (cases iterCount) auto
  show "updatePlanet_Iterative iterCount G dt (orb, g) =
        (case iterate_loop (iterCount - 1) G dt (vPlanet orb) (xPlanet orb) (xPlanet orb, g) of
           Inl e \<Rightarrow> Inl e
         | Inr s1 \<Rightarrow>
             (case iterate_pass G dt (vPlanet orb) (xPlanet orb) s1 of
                Inl e \<Rightarrow> Inl e
              | Inr (xAvg, g') \<Rightarrow>
                  Inr (orb\<lparr>vPlanet := the (vNext g'), xPlanet := the (xNext g')\<rparr>, g')))"
    unfolding n updatePlanet_Iterative_def iterate_loop_snoc
    by (auto split: sum.splits option.splits dest: iterate_pass_sets)
next
  assume pos: "0 < iterCount"
  show "map_sum id fst (updatePlanet_Iterative iterCount G dt (orb, g)) =
        map_sum id fst (updatePlanet_Iterative iterCount G dt (orb, g0))"
    by (simp add: updatePlanet_Iterative_spec [OF pos])
next
  show "updatePlanet_Iterative 0 G dt (orb, g) =
     (case vNext g of
        None \<Rightarrow> Inl ReferenceError
      | Some v \<Rightarrow>
          (case xNext g of
             None \<Rightarrow> Inl ReferenceError
           | Some x \<Rightarrow> Inr (orb\<lparr>vPlanet := v, xPlanet := x\<rparr>, g)))"
    by (rule zero_passes_commit_globals)
next
  show "updatePlanet_Iterative 0 G dt (orb, g) = Inr (orb, g) \<longleftrightarrow>
      vNext g = Some (vPlanet orb) \<and> xNext g = Some (xPlanet orb)"
    by (rule zero_passes_unchanged_iff)
next
  assume "0 < iterCount \<and> updatePlanet_Iterative iterCount G dt (orb, g) = Inr (orb1, g1)"
  then show "updatePlanet_Iterative 0 G' dt' (orb1, g1) = Inr (orb1, g1)"
    by (blast intro: zero_passes_after_a_pass)
qed

text \<open>
  One pass for a planet at rest at \<open>(0, -1)\<close>, and no pass right after it, with another
  constant and another time step; no pass with unassigned globals; no pass with globals
  left by some other computation.
\<close>

theorem updatePlanet_Iterative_commits_globals_witness:
  "(0::nat) < 1 \<and>
   updatePlanet_Iterative 1 1 1 (createNewOrbit (Vec 0 0), fresh_globals) =
     Inr ((createNewOrbit (Vec 0 0))\<lparr>vPlanet := Vec 0 1, xPlanet := Vec 0 (- (1/2))\<rparr>,
          \<lparr>vNext = Some (Vec 0 1), vAvg = Some (Vec 0 (1/2)), xNext = Some (Vec 0 (- (1/2)))\<rparr>) \<and>
   updatePlanet_Iterative 0 5 7
       ((createNewOrbit (Vec 0 0))\<lparr>vPlanet := Vec 0 1, xPlanet := Vec 0 (- (1/2))\<rparr>,
        \<lparr>vNext = Some (Vec 0 1), vAvg = Some (Vec 0 (1/2)), xNext = Some (Vec 0 (- (1/2)))\<rparr>) =
     Inr ((createNewOrbit (Vec 0 0))\<lparr>vPlanet := Vec 0 1, xPlanet := Vec 0 (- (1/2))\<rparr>,
          \<lparr>vNext = Some (Vec 0 1), vAvg = Some (Vec 0 (1/2)), xNext = Some (Vec 0 (- (1/2)))\<rparr>) \<and>
   updatePlanet_Iterative 0 1 1 (createNewOrbit (Vec 0 0), fresh_globals) = Inl ReferenceError \<and>
   updatePlanet_Iterative 0 1 1
       (createNewOrbit (Vec 0 0), \<lparr>vNext = Some (Vec 3 4), vAvg = None, xNext = Some (Vec 5 6)\<rparr>) =
     Inr ((createNewOrbit (Vec 0 0))\<lparr>vPlanet := Vec 3 4, xPlanet := Vec 5 6\<rparr>,
          \<lparr>vNext = Some (Vec 3 4), vAvg = None, xNext = Some (Vec 5 6)\<rparr>)"
proof -
  let ?orb = "createNewOrbit (Vec 0 0)"
  let ?orb1 = "?orb\<lparr>vPlanet := Vec 0 1, xPlanet := Vec 0 (- (1/2))\<rparr>"
  let ?g1 = "\<lparr>vNext = Some (Vec 0 1), vAvg = Some (Vec 0 (1/2)), xNext = Some (Vec 0 (- (1/2)))\<rparr>"
  let ?stale = "\<lparr>vNext = Some (Vec 3 4), vAvg = None, xNext = Some (Vec 5 6)\<rparr>"
  have x: "xPlanet ?orb = Vec 0 (- 1)" and v: "vPlanet ?orb = Vec 0 0"
    by (simp_all add: createNewOrbit_def createVector_def)
  have pos: "(0::nat) < 1" by simp
  have pass: "iterate_pass 1 1 (Vec 0 0) (Vec 0 (- 1)) (Vec 0 (- 1), fresh_globals) = Inr (Vec 0 (- (3/4)), ?g1)"
    by (simp add: iterate_pass_def Let_def magSq_def fresh_globals_def add_vec_def mult_vec_def
        div_vec_def normalize_vec_def mag_axis)
  note t1 = updatePlanet_Iterative_commits_globals
    [where iterCount = 1 and G = 1 and dt = 1 and orb = ?orb and g = fresh_globals
       and ?orb1.0 = ?orb1 and ?g1.0 = ?g1 and G' = 5 and dt' = 7]
  have a: "updatePlanet_Iterative 1 1 1 (?orb, fresh_globals) = Inr (?orb1, ?g1)"
    using t1 [THEN conjunct1, rule_format, OF pos] by (simp add: x v pass)
  have b: "updatePlanet_Iterative 0 1 1 (?orb, fresh_globals) = Inl ReferenceError"
    using t1 [THEN conjunct2, THEN conjunct2, THEN conjunct1] by (simp add: fresh_globals_def)
  have d: "updatePlanet_Iterative 0 5 7 (?orb1, ?g1) = Inr (?orb1, ?g1)"
    by (rule t1 [THEN conjunct2, THEN conjunct2, THEN conjunct2, THEN conjunct2, rule_format,
          OF conjI, OF pos a])
  note t2 = updatePlanet_Iterative_commits_globals
    [where iterCount = 1 and G = 1 and dt = 1 and orb = ?orb and g = ?stale]
  have c: "updatePlanet_Iterative 0 1 1 (?orb, ?stale) =
     Inr (?orb\<lparr>vPlanet := Vec 3 4, xPlanet := Vec 5 6\<rparr>, ?stale)"
    using t2 [THEN conjunct2, THEN conjunct2, THEN conjunct1] by simp
  from pos a d b c show ?thesis by blast
qed

text \<open>
  The claim as the specification has it, that a call with no iteration does not leave the
  state unchanged, fails right after a call that made a pass: the globals hold what that
  call committed, and committing them again changes nothing.
\<close>

theorem zero_passes_after_first_pass_change_nothing:
  "updatePlanet_Iterative 1 1 1 (createNewOrbit (Vec 0 0), fresh_globals) =
     Inr ((createNewOrbit (Vec 0 0))\<lparr>vPlanet := Vec 0 1, xPlanet := Vec 0 (- (1/2))\<rparr>,
          \<lparr>vNext = Some (Vec 0 1), vAvg = Some (Vec 0 (1/2)), xNext = Some (Vec 0 (- (1/2)))\<rparr>) \<and>
   updatePlanet_Iterative 0 1 1
       ((createNewOrbit (Vec 0 0))\<lparr>vPlanet := Vec 0 1, xPlanet := Vec 0 (- (1/2))\<rparr>,
        \<lparr>vNext = Some (Vec 0 1), vAvg = Some (Vec 0 (1/2)), xNext = Some (Vec 0 (- (1/2)))\<rparr>) =
     Inr ((createNewOrbit (Vec 0 0))\<lparr>vPlanet := Vec 0 1, xPlanet := Vec 0 (- (1/2))\<rparr>,
          \<lparr>vNext = Some (Vec 0 1), vAvg = Some (Vec 0 (1/2)), xNext = Some (Vec 0 (- (1/2)))\<rparr>)"
proof -
  have pos: "(0::nat) < 1" by simp
  note a = first_pass_from_rest
  note b = zero_passes_after_a_pass [OF pos a, of 1 1]
  from a b show ?thesis by (rule conjI)
qed

section \<open>Interpolation on the recorded path\<close>

text \<open>
  C2. With weight \<open>0\<close> \<^verbatim>\<open>interpolatePosition\<close> does not return \<^verbatim>\<open>path[index]\<close>: it
  multiplies \<^verbatim>\<open>path[index]\<close> by the weight and the next point by one minus the weight.
  On the path \<open>(0, -1), (1, 0)\<close>, index \<open>0\<close>, weight \<open>0\<close> gives \<open>(1, 0)\<close>, the next
  point; weight \<open>1\<close> gives \<open>(0, -1)\<close>.
\<close>

theorem interpolatePosition_weight_zero_is_next_point:
  "interpolatePosition [Vec 0 (- 1), Vec 1 0] 0 0 = Inr (Vec 1 0) \<and>
   [Vec 0 (- 1), Vec 1 0] ! 0 = Vec 0 (- 1) \<and>
   interpolatePosition [Vec 0 (- 1), Vec 1 0] 0 1 = Inr (Vec 0 (- 1))"
  by (simp add: interpolatePosition_def add_vec_def mult_vec_def)

section \<open>The sweep area in any arithmetic\<close>




















section \<open>Rounding to the nearest double\<close>



lemma round_half_even_tie:
  assumes "y = of_int m + 1 / 2" and "even m"
  shows "round_half_even y = m"
proof -
  have "\<lfloor>y\<rfloor> = m" using assms(1) by (intro floor_unique) simp_all
  then show ?thesis using assms by (simp add: round_half_even_def)
qed






















section \<open>Four sweep areas in doubles, operation by operation\<close>


























































































section \<open>The sweep area: what holds and what does not\<close>











section \<open>The tick: auxiliary facts\<close>

text \<open>
  With \<open>G = 0\<close> the acceleration vanishes and the planet moves on a straight line; when
  the line misses the origin no mean position is the origin and the integrator returns.
\<close>

lemma off_line_nonzero:
  assumes "cross_z x v \<noteq> 0"
  shows "add_vec x (mult_vec v t) \<noteq> Vec 0 0"
proof
  assume "add_vec x (mult_vec v t) = Vec 0 0"
  then have "vx x = - (vx v * t)" "vy x = - (vy v * t)"
    by (simp_all add: add_vec_def mult_vec_def)
  then have "cross_z x v = 0" by (simp add: cross_z_def)
  with assms show False by simp
qed

lemma cross_z_drift: "cross_z (add_vec x (mult_vec v t)) v = cross_z x v"
  by (simp add: cross_z_def add_vec_def mult_vec_def algebra_simps)

lemma iterate_pass_free:
  assumes "m \<noteq> Vec 0 0"
  shows "iterate_pass 0 h v x (m, g) = Inr (add_vec x (mult_vec v (h / 2)), coast x v h g)"
proof -
  have "magSq m \<noteq> 0" using assms by (simp add: magSq_zero_iff)
  then show ?thesis
    by (cases v; cases x)
      (simp add: iterate_pass_def Let_def coast_def add_vec_def mult_vec_def div_vec_def
        algebra_simps)
qed

lemma coast_twice: "coast x v h (coast x v h g) = coast x v h g"
  by (simp add: coast_def)

lemma iterate_loop_free:
  assumes "m \<noteq> Vec 0 0" and "cross_z x v \<noteq> 0"
  shows "iterate_loop (Suc n) 0 h v x (m, g) = Inr (add_vec x (mult_vec v (h / 2)), coast x v h g)"
  using assms(1)
proof (induction n arbitrary: m g)
  case 0
  then show ?case by (simp add: iterate_pass_free)
next
  case (Suc n)
  have "iterate_loop (Suc (Suc n)) 0 h v x (m, g)
      = iterate_loop (Suc n) 0 h v x (add_vec x (mult_vec v (h / 2)), coast x v h g)"
    using Suc.prems by (simp add: iterate_pass_free)
  also have "\<dots> = Inr (add_vec x (mult_vec v (h / 2)), coast x v h (coast x v h g))"
    by (rule Suc.IH) (rule off_line_nonzero [OF assms(2)])
  finally show ?case by (simp add: coast_twice)
qed

lemma updatePlanet_Iterative_free:
  assumes "cross_z (xPlanet orb) (vPlanet orb) \<noteq> 0"
  shows "updatePlanet_Iterative (Suc n) 0 h (orb, g) =
     Inr (orb\<lparr>xPlanet := add_vec (xPlanet orb) (mult_vec (vPlanet orb) h)\<rparr>,
          coast (xPlanet orb) (vPlanet orb) h g)"
proof -
  have "xPlanet orb \<noteq> Vec 0 0"
    using assms by (auto simp: cross_z_def)
  then have "iterate_loop (Suc n) 0 h (vPlanet orb) (xPlanet orb) (xPlanet orb, g)
      = Inr (add_vec (xPlanet orb) (mult_vec (vPlanet orb) (h / 2)),
             coast (xPlanet orb) (vPlanet orb) h g)"
    using assms by (rule iterate_loop_free)
  then show ?thesis
    by (simp add: updatePlanet_Iterative_def coast_def)
qed

lemma subdivide_loop_free:
  assumes "cross_z (xPlanet orb) (vPlanet orb) \<noteq> 0"
  shows "subdivide_loop (Suc k) (Suc n) 0 h (orb, g) =
     Inr (orb\<lparr>xPlanet := add_vec (xPlanet orb) (mult_vec (vPlanet orb) (real (Suc k) * h))\<rparr>,
          coast (add_vec (xPlanet orb) (mult_vec (vPlanet orb) (real k * h))) (vPlanet orb) h g)"
  using assms
proof (induction k arbitrary: orb g)
  case 0
  then show ?case
    by (cases "xPlanet orb") (simp add: updatePlanet_Iterative_free add_vec_def mult_vec_def)
next
  case (Suc k)
  let ?orb1 = "orb\<lparr>xPlanet := add_vec (xPlanet orb) (mult_vec (vPlanet orb) h)\<rparr>"
  have c: "cross_z (xPlanet ?orb1) (vPlanet ?orb1) \<noteq> 0"
    using Suc.prems by (simp add: cross_z_drift)
  have "subdivide_loop (Suc (Suc k)) (Suc n) 0 h (orb, g)
      = subdivide_loop (Suc k) (Suc n) 0 h (?orb1, coast (xPlanet orb) (vPlanet orb) h g)"
    using Suc.prems by (simp add: updatePlanet_Iterative_free)
  also note Suc.IH [OF c]
  finally show ?case
    by (simp add: coast_def add_vec_def mult_vec_def algebra_simps)
qed

lemma straight_line:
  assumes "cross_z (xPlanet orb) (vPlanet orb) \<noteq> 0"
  shows "updatePlanet_Iterative_Subdivided 5 25 0 dt (orb, g) =
     Inr (orb\<lparr>xPlanet := add_vec (xPlanet orb) (mult_vec (vPlanet orb) dt)\<rparr>,
          coast (add_vec (xPlanet orb) (mult_vec (vPlanet orb) (24 * (dt / 25)))) (vPlanet orb) (dt / 25) g)"
proof -
  have five: "(5::nat) = Suc 4" and tf: "(25::nat) = Suc 24" by simp_all
  show ?thesis
    unfolding updatePlanet_Iterative_Subdivided_def
    apply (subst five, subst tf)
    apply (subst subdivide_loop_free [OF assms])
    apply simp
    done
qed

lemma updatePlanet_Iterative_frame:
  assumes "updatePlanet_Iterative n G h (orb, g) = Inr (orb1, g1)"
  shows "\<exists>v x. orb1 = orb\<lparr>vPlanet := v, xPlanet := x\<rparr>"
proof -
  from assms obtain v x where "orb1 = orb\<lparr>vPlanet := v, xPlanet := x\<rparr>"
    by (auto simp: updatePlanet_Iterative_def split: sum.splits option.splits)
  then show ?thesis by blast
qed

lemma subdivide_loop_frame:
  "subdivide_loop k n G h (orb, g) = Inr (orb1, g1) \<Longrightarrow>
     \<exists>v x. orb1 = orb\<lparr>vPlanet := v, xPlanet := x\<rparr>"
proof (induction k arbitrary: orb g)
  case 0
  then have "orb1 = orb\<lparr>vPlanet := vPlanet orb, xPlanet := xPlanet orb\<rparr>" by simp
  then show ?case by blast
next
  case (Suc k)
  from Suc.prems obtain orb2 g2 where
    a: "updatePlanet_Iterative n G h (orb, g) = Inr (orb2, g2)"
    and b: "subdivide_loop k n G h (orb2, g2) = Inr (orb1, g1)"
    by (auto split: sum.splits)
  obtain v2 x2 where o2: "orb2 = orb\<lparr>vPlanet := v2, xPlanet := x2\<rparr>"
    using updatePlanet_Iterative_frame [OF a] by blast
  obtain v1 x1 where o1: "orb1 = orb2\<lparr>vPlanet := v1, xPlanet := x1\<rparr>"
    using Suc.IH [OF b] by blast
  have "orb1 = orb\<lparr>vPlanet := v1, xPlanet := x1\<rparr>"
    unfolding o1 o2 by simp
  then show ?case by blast
qed

lemma subdivided_frame:
  assumes "updatePlanet_Iterative_Subdivided n k G dt (orb, g) = Inr (orb1, g1)"
  shows "orb1 = orb\<lparr>vPlanet := vPlanet orb1, xPlanet := xPlanet orb1\<rparr>"
proof -
  obtain v x where "orb1 = orb\<lparr>vPlanet := v, xPlanet := x\<rparr>"
    using assms subdivide_loop_frame unfolding updatePlanet_Iterative_Subdivided_def by blast
  then show ?thesis by simp
qed

text \<open>The branch of the first orbit, once the integrator has returned.\<close>

lemma draw_first_orbit_open:
  assumes step: "updatePlanet_Iterative_Subdivided 5 25 G dt (orb, g) = Inr (orb1, g1)"
    and ne: "firstOrbitPath orb \<noteq> []"
    and ang: "angleBetween (last (firstOrbitPath orb)) (xPlanet orb1) = Inr ang"
  shows "draw_first_orbit G dt (orb, g) =
     (let path = firstOrbitPath orb @ [xPlanet orb1];
          acc = angularChangeThisOrbit orb + \<bar>ang\<bar>;
          orb2 = orb\<lparr>xPlanet := xPlanet orb1, vPlanet := vPlanet orb1,
                     angularChangeThisOrbit := acc, firstOrbitPath := path\<rparr>
      in if acc > pi * 2 then
           (case angleBetween (path ! 1) (path ! 0) of
              Inl e \<Rightarrow> Inl e
            | Inr fs \<Rightarrow>
                if fs = 0 then Inl NonFinite
                else Inr (orb2\<lparr>isFirstOrbit := False,
                               currSnapIndex := 0,
                               currSnapSubindex := (acc - pi * 2) / \<bar>fs\<bar>,
                               indexCarryOver := (acc - pi * 2) / \<bar>fs\<bar>\<rparr>, g1))
         else Inr (orb2, g1))"
proof -
  note fr = subdivided_frame [OF step]
  have p: "firstOrbitPath orb1 = firstOrbitPath orb"
    and a: "angularChangeThisOrbit orb1 = angularChangeThisOrbit orb"
    by (subst fr, simp)+
  have len: "\<not> length (firstOrbitPath orb @ [xPlanet orb1]) < 2"
    using ne by (cases "firstOrbitPath orb") simp_all
  have prev: "(firstOrbitPath orb @ [xPlanet orb1]) ! (length (firstOrbitPath orb @ [xPlanet orb1]) - 2)
      = last (firstOrbitPath orb)"
    using ne by (simp add: nth_append last_conv_nth)
  have o: "orb1\<lparr>firstOrbitPath := P, angularChangeThisOrbit := A\<rparr> =
      orb\<lparr>xPlanet := xPlanet orb1, vPlanet := vPlanet orb1,
          angularChangeThisOrbit := A, firstOrbitPath := P\<rparr>" for P A
    by (subst fr) simp
  show ?thesis
    unfolding draw_first_orbit_def step
    by (simp only: sum.case prod.case Let_def p a len prev ang if_False o)
      (simp add: Let_def split: sum.splits)
qed

lemma arccos_inv_sqrt2: "arccos (1 / sqrt 2) = pi / 4"
proof -
  have "cos (pi / 4) = 1 / sqrt 2"
    by (simp add: cos_45 real_div_sqrt field_simps)
  moreover have "arccos (cos (pi / 4)) = pi / 4"
    by (rule arccos_cos) simp_all
  ultimately show ?thesis by simp
qed

lemma angle_launch: "angleBetween (Vec 0 (- 1)) (Vec 1 0) = Inr (pi / 2)"
  by (simp add: angleBetween_def magSq_def mag_def dot_def cross_z_def)

lemma clamp_inv_sqrt2: "min 1 (max (- 1) (1 / sqrt 2)) = 1 / sqrt 2"
proof -
  have "(0::real) \<le> 1 / sqrt 2" by simp
  moreover have "1 / sqrt 2 \<le> (1::real)" by (simp add: field_simps)
  ultimately have "max (- 1) (1 / sqrt 2) = 1 / sqrt 2" "min 1 (1 / sqrt 2) = 1 / sqrt 2"
    by linarith+
  then show ?thesis by simp
qed

lemma angle_eighth: "angleBetween (Vec 1 (- 1)) (Vec 0 (- 1)) = Inr (- (pi / 4))"
proof -
  have "angleBetween (Vec 1 (- 1)) (Vec 0 (- 1)) = Inr (arccos (min 1 (max (- 1) (1 / sqrt 2))) * - 1)"
    by (simp add: angleBetween_def magSq_def mag_def dot_def cross_z_def)
  then show ?thesis
    by (simp only: clamp_inv_sqrt2 arccos_inv_sqrt2) simp
qed

lemma angle_parallel: "angleBetween (Vec 0 (- 2)) (Vec 0 (- 1)) = Inr 0"
  by (simp add: angleBetween_def magSq_def mag_def dot_def cross_z_def)

lemma closing_step:
  "updatePlanet_Iterative_Subdivided 5 25 0 1 (closing_orbit, g) =
     Inr (closing_orbit\<lparr>xPlanet := Vec 1 0\<rparr>,
          g\<lparr>vNext := Some (Vec 1 1), vAvg := Some (Vec 1 1), xNext := Some (Vec 1 0)\<rparr>)"
proof -
  have "cross_z (xPlanet closing_orbit) (vPlanet closing_orbit) \<noteq> 0"
    by (simp add: closing_orbit_def cross_z_def)
  note straight_line [OF this, of 1 g]
  then show ?thesis
    by (simp add: closing_orbit_def coast_def add_vec_def mult_vec_def)
qed

lemma closing_tick:
  "draw_orbit 0 1 (closing_orbit, g) =
     Inr (closing_orbit\<lparr>xPlanet := Vec 1 0,
            angularChangeThisOrbit := 5 * pi / 2,
            firstOrbitPath :=
              [Vec 0 (- 1), Vec 1 (- 1), Vec 1 0, Vec 0 1, Vec (- 1) 0, Vec 0 (- 1), Vec 1 0],
            isFirstOrbit := False, currSnapIndex := 0, currSnapSubindex := 2,
            indexCarryOver := 2\<rparr>,
          g\<lparr>vNext := Some (Vec 1 1), vAvg := Some (Vec 1 1), xNext := Some (Vec 1 0)\<rparr>)"
proof -
  have l: "isFirstOrbit closing_orbit" by (simp add: closing_orbit_def)
  have ne: "firstOrbitPath closing_orbit \<noteq> []" by (simp add: closing_orbit_def)
  have ang: "angleBetween (last (firstOrbitPath closing_orbit))
       (xPlanet (closing_orbit\<lparr>xPlanet := Vec 1 0\<rparr>)) = Inr (pi / 2)"
    by (simp add: closing_orbit_def angle_launch)
  show ?thesis
    unfolding draw_orbit_def
    apply (simp only: prod.case l if_True)
    apply (subst draw_first_orbit_open [OF closing_step ne ang])
    apply (simp add: closing_orbit_def angle_eighth)
    done
qed

lemma draw_first_orbit_empty:
  assumes step: "updatePlanet_Iterative_Subdivided 5 25 G dt (orb, g) = Inr (orb1, g1)"
    and e: "firstOrbitPath orb = []"
  shows "draw_first_orbit G dt (orb, g) = Inl TypeError"
proof -
  note fr = subdivided_frame [OF step]
  have p: "firstOrbitPath orb1 = firstOrbitPath orb"
    by (subst fr) simp
  show ?thesis
    unfolding draw_first_orbit_def step
    by (simp add: p e)
qed

lemma draw_first_orbit_no_angle:
  assumes step: "updatePlanet_Iterative_Subdivided 5 25 G dt (orb, g) = Inr (orb1, g1)"
    and ne: "firstOrbitPath orb \<noteq> []"
    and ang: "angleBetween (last (firstOrbitPath orb)) (xPlanet orb1) = Inl e"
  shows "draw_first_orbit G dt (orb, g) = Inl e"
proof -
  note fr = subdivided_frame [OF step]
  have p: "firstOrbitPath orb1 = firstOrbitPath orb"
    by (subst fr) simp
  have len: "\<not> length (firstOrbitPath orb @ [xPlanet orb1]) < 2"
    using ne by (cases "firstOrbitPath orb") simp_all
  have prev: "(firstOrbitPath orb @ [xPlanet orb1]) ! (length (firstOrbitPath orb @ [xPlanet orb1]) - 2)
      = last (firstOrbitPath orb)"
    using ne by (simp add: nth_append last_conv_nth)
  show ?thesis
    unfolding draw_first_orbit_def step
    by (simp only: sum.case prod.case Let_def p len prev ang if_False)
qed

lemma draw_first_orbit_returns:
  assumes ret: "draw_first_orbit G dt (orb, g) = Inr (orb', g')"
  obtains orb1 g1 ang where
    "updatePlanet_Iterative_Subdivided 5 25 G dt (orb, g) = Inr (orb1, g1)"
    "firstOrbitPath orb \<noteq> []"
    "angleBetween (last (firstOrbitPath orb)) (xPlanet orb1) = Inr ang"
proof -
  from ret obtain orb1 g1 where
    step: "updatePlanet_Iterative_Subdivided 5 25 G dt (orb, g) = Inr (orb1, g1)"
    by (auto simp: draw_first_orbit_def split: sum.splits)
  have ne: "firstOrbitPath orb \<noteq> []"
    using draw_first_orbit_empty [OF step] ret by auto
  obtain ang where "angleBetween (last (firstOrbitPath orb)) (xPlanet orb1) = Inr ang"
    using draw_first_orbit_no_angle [OF step ne] ret
    by (cases "angleBetween (last (firstOrbitPath orb)) (xPlanet orb1)") auto
  with step ne show ?thesis by (rule that)
qed

lemma live_tick_acc:
  assumes live: "isFirstOrbit orb" and ret: "draw_orbit G dt (orb, g) = Inr (orb', g')"
  shows "angularChangeThisOrbit orb \<le> angularChangeThisOrbit orb' \<and>
         (isFirstOrbit orb' \<longleftrightarrow> angularChangeThisOrbit orb' \<le> 2 * pi)"
proof -
  from live ret have d: "draw_first_orbit G dt (orb, g) = Inr (orb', g')"
    by (simp add: draw_orbit_def)
  from d obtain orb1 g1 ang where
    step: "updatePlanet_Iterative_Subdivided 5 25 G dt (orb, g) = Inr (orb1, g1)"
    and ne: "firstOrbitPath orb \<noteq> []"
    and ang: "angleBetween (last (firstOrbitPath orb)) (xPlanet orb1) = Inr ang"
    by (rule draw_first_orbit_returns)
  from d live show ?thesis
    unfolding draw_first_orbit_open [OF step ne ang]
    by (auto simp: Let_def split: if_splits sum.splits)
qed

lemma snap_tick_frame:
  assumes "\<not> isFirstOrbit orb" and "draw_orbit G dt (orb, g) = Inr (orb', g')"
  shows "orb' = orb\<lparr>currSnapIndex := currSnapIndex orb',
                     currSnapSubindex := currSnapSubindex orb',
                     xPlanet := xPlanet orb'\<rparr> \<and> g' = g"
  using assms
  by (auto simp: draw_orbit_def draw_snap_def Let_def split: sum.splits if_splits)

lemma ticks_add:
  "ticks (n + m) G dt s = (case ticks n G dt s of Inl e \<Rightarrow> Inl e | Inr s' \<Rightarrow> ticks m G dt s')"
  by (induction n arbitrary: s) (auto split: sum.splits)

lemma closing_tick_closed:
  "draw_orbit 0 1 (closing_orbit, fresh_globals) = Inr (closed_orbit, coasted_globals)"
  unfolding closing_tick
  by (simp add: closing_orbit_def closed_orbit_def coasted_globals_def fresh_globals_def)

lemma launch_step:
  "updatePlanet_Iterative_Subdivided 5 25 0 1 (createNewOrbit (Vec 1 1), g) =
     Inr ((createNewOrbit (Vec 1 1))\<lparr>xPlanet := Vec 1 0\<rparr>,
          g\<lparr>vNext := Some (Vec 1 1), vAvg := Some (Vec 1 1), xNext := Some (Vec 1 0)\<rparr>)"
proof -
  have "cross_z (xPlanet (createNewOrbit (Vec 1 1))) (vPlanet (createNewOrbit (Vec 1 1))) \<noteq> 0"
    by (simp add: createNewOrbit_def createVector_def cross_z_def)
  note straight_line [OF this, of 1 g]
  then show ?thesis
    by (simp add: createNewOrbit_def createVector_def coast_def add_vec_def mult_vec_def)
qed

lemma radial_start_step:
  "updatePlanet_Iterative_Subdivided 5 25 0 1 (radial_start_orbit, g) =
     Inr (radial_start_orbit\<lparr>xPlanet := Vec 1 0\<rparr>,
          g\<lparr>vNext := Some (Vec 1 1), vAvg := Some (Vec 1 1), xNext := Some (Vec 1 0)\<rparr>)"
proof -
  have "cross_z (xPlanet radial_start_orbit) (vPlanet radial_start_orbit) \<noteq> 0"
    by (simp add: radial_start_orbit_def closing_orbit_def cross_z_def)
  note straight_line [OF this, of 1 g]
  then show ?thesis
    by (simp add: radial_start_orbit_def closing_orbit_def coast_def add_vec_def mult_vec_def)
qed

lemma closing_step_fresh:
  "updatePlanet_Iterative_Subdivided 5 25 0 1 (closing_orbit, fresh_globals) =
     Inr (closing_orbit\<lparr>xPlanet := Vec 1 0\<rparr>, coasted_globals)"
  unfolding closing_step by (simp add: fresh_globals_def coasted_globals_def)

lemma radial_start_step_fresh:
  "updatePlanet_Iterative_Subdivided 5 25 0 1 (radial_start_orbit, fresh_globals) =
     Inr (radial_start_orbit\<lparr>xPlanet := Vec 1 0\<rparr>, coasted_globals)"
  unfolding radial_start_step by (simp add: fresh_globals_def coasted_globals_def)

lemma snap_tick_keeps:
  assumes "\<not> isFirstOrbit orb" and "draw_orbit G dt (orb, g) = Inr (orb', g')"
  shows "\<not> isFirstOrbit orb'" "angularChangeThisOrbit orb' = angularChangeThisOrbit orb"
  using assms
  by (auto simp: draw_orbit_def draw_snap_def Let_def split: sum.splits if_splits)

lemma tick_acc_mono:
  assumes "draw_orbit G dt (orb, g) = Inr (orb', g')"
  shows "angularChangeThisOrbit orb \<le> angularChangeThisOrbit orb'"
proof (cases "isFirstOrbit orb")
  case True
  then show ?thesis using assms live_tick_acc by blast
next
  case False
  then show ?thesis using assms snap_tick_keeps(2) by fastforce
qed

lemma tick_mode_invariant:
  assumes "isFirstOrbit orb \<longleftrightarrow> angularChangeThisOrbit orb \<le> 2 * pi"
    and "draw_orbit G dt (orb, g) = Inr (orb', g')"
  shows "isFirstOrbit orb' \<longleftrightarrow> angularChangeThisOrbit orb' \<le> 2 * pi"
proof (cases "isFirstOrbit orb")
  case True
  then show ?thesis using assms(2) live_tick_acc by blast
next
  case False
  then show ?thesis using assms snap_tick_keeps [OF False assms(2)] by simp
qed

lemma ticks_acc_mono:
  "ticks m G dt (orb, g) = Inr (orb', g') \<Longrightarrow>
     angularChangeThisOrbit orb \<le> angularChangeThisOrbit orb'"
proof (induction m arbitrary: orb g)
  case 0
  then show ?case by simp
next
  case (Suc m)
  from Suc.prems obtain orb1 g1 where
    a: "draw_orbit G dt (orb, g) = Inr (orb1, g1)" and b: "ticks m G dt (orb1, g1) = Inr (orb', g')"
    by (auto split: sum.splits)
  from tick_acc_mono [OF a] Suc.IH [OF b] show ?case by simp
qed

lemma ticks_mode_invariant:
  "(isFirstOrbit orb \<longleftrightarrow> angularChangeThisOrbit orb \<le> 2 * pi) \<Longrightarrow>
   ticks m G dt (orb, g) = Inr (orb', g') \<Longrightarrow>
     (isFirstOrbit orb' \<longleftrightarrow> angularChangeThisOrbit orb' \<le> 2 * pi)"
proof (induction m arbitrary: orb g)
  case 0
  then show ?case by simp
next
  case (Suc m)
  from Suc.prems(2) obtain orb1 g1 where
    a: "draw_orbit G dt (orb, g) = Inr (orb1, g1)" and b: "ticks m G dt (orb1, g1) = Inr (orb', g')"
    by (auto split: sum.splits)
  from tick_mode_invariant [OF Suc.prems(1) a] b show ?case by (rule Suc.IH)
qed

lemma ticks_stay_snapped:
  "\<not> isFirstOrbit orb \<Longrightarrow> ticks m G dt (orb, g) = Inr (orb', g') \<Longrightarrow>
     \<not> isFirstOrbit orb' \<and> angularChangeThisOrbit orb' = angularChangeThisOrbit orb"
proof (induction m arbitrary: orb g)
  case 0
  then show ?case by simp
next
  case (Suc m)
  from Suc.prems(2) obtain orb1 g1 where
    a: "draw_orbit G dt (orb, g) = Inr (orb1, g1)" and b: "ticks m G dt (orb1, g1) = Inr (orb', g')"
    by (auto split: sum.splits)
  note k = snap_tick_keeps [OF Suc.prems(1) a]
  from Suc.IH [OF k(1) b] k(2) show ?case by simp
qed

lemma ticks_stay_framed:
  "\<not> isFirstOrbit orb \<Longrightarrow> ticks m G dt (orb, g) = Inr (orb', g') \<Longrightarrow>
     orb' = orb\<lparr>currSnapIndex := currSnapIndex orb',
                currSnapSubindex := currSnapSubindex orb',
                xPlanet := xPlanet orb'\<rparr> \<and> g' = g"
proof (induction m arbitrary: orb g)
  case 0
  then show ?case by simp
next
  case (Suc m)
  from Suc.prems(2) obtain orb1 g1 where
    a: "draw_orbit G dt (orb, g) = Inr (orb1, g1)" and b: "ticks m G dt (orb1, g1) = Inr (orb', g')"
    by (auto split: sum.splits)
  obtain i s p where o1: "orb1 = orb\<lparr>currSnapIndex := i, currSnapSubindex := s, xPlanet := p\<rparr>"
    and g1: "g1 = g"
    using snap_tick_frame [OF Suc.prems(1) a] by blast
  note k = snap_tick_keeps [OF Suc.prems(1) a]
  obtain i' s' p' where o2: "orb' = orb1\<lparr>currSnapIndex := i', currSnapSubindex := s', xPlanet := p'\<rparr>"
    and g2: "g' = g1"
    using Suc.IH [OF k(1) b] by blast
  show ?case unfolding o2 o1 g2 g1 by simp
qed

lemma replay_two_ticks:
  "ticks 2 1 (11 / 1000) (replaying_orbit, fresh_globals) =
     Inr (replaying_orbit\<lparr>currSnapIndex := 2, currSnapSubindex := 0,
            xPlanet := Vec (- 1) 0\<rparr>, fresh_globals)"
  by (simp add: numeral_2_eq_2 draw_orbit_def draw_snap_def interpolatePosition_def Let_def
      replaying_orbit_def add_vec_def mult_vec_def)

lemma closed_one_tick:
  "ticks 1 0 1 (closed_orbit, coasted_globals) =
     Inr (closed_orbit\<lparr>currSnapIndex := 1, xPlanet := Vec 1 (- 2)\<rparr>, coasted_globals)"
  by (simp add: draw_orbit_def draw_snap_def interpolatePosition_def Let_def
      closed_orbit_def add_vec_def mult_vec_def)

lemma closing_one_tick:
  "ticks 1 0 1 (closing_orbit, fresh_globals) = Inr (closed_orbit, coasted_globals)"
  by (simp add: closing_tick_closed)

lemmas snap_defs = draw_orbit_def draw_snap_def interpolatePosition_def Let_def
  closed_orbit_def add_vec_def mult_vec_def

lemma closed_tick_1:
  "draw_orbit 0 1 (closed_orbit, coasted_globals) =
     Inr (closed_orbit\<lparr>currSnapIndex := 1, xPlanet := Vec 1 (- 2)\<rparr>, coasted_globals)"
  by (simp add: snap_defs)

lemma closed_tick_2:
  "draw_orbit 0 1 (closed_orbit\<lparr>currSnapIndex := 1, xPlanet := Vec 1 (- 2)\<rparr>, coasted_globals) =
     Inr (closed_orbit\<lparr>currSnapIndex := 2, xPlanet := Vec 2 (- 1)\<rparr>, coasted_globals)"
  by (simp add: snap_defs)

lemma closed_tick_3:
  "draw_orbit 0 1 (closed_orbit\<lparr>currSnapIndex := 2, xPlanet := Vec 2 (- 1)\<rparr>, coasted_globals) =
     Inr (closed_orbit\<lparr>currSnapIndex := 3, xPlanet := Vec 1 2\<rparr>, coasted_globals)"
  by (simp add: snap_defs)

lemma closed_tick_4:
  "draw_orbit 0 1 (closed_orbit\<lparr>currSnapIndex := 3, xPlanet := Vec 1 2\<rparr>, coasted_globals) =
     Inr (closed_orbit\<lparr>currSnapIndex := 4, xPlanet := Vec (- 2) 1\<rparr>, coasted_globals)"
  by (simp add: snap_defs)

lemma closed_tick_5:
  "draw_orbit 0 1 (closed_orbit\<lparr>currSnapIndex := 4, xPlanet := Vec (- 2) 1\<rparr>, coasted_globals) =
     Inr (closed_orbit\<lparr>currSnapIndex := 5, xPlanet := Vec (- 1) (- 2)\<rparr>, coasted_globals)"
  by (simp add: snap_defs)

lemma closed_tick_6:
  "draw_orbit 0 1 (closed_orbit\<lparr>currSnapIndex := 5, xPlanet := Vec (- 1) (- 2)\<rparr>, coasted_globals) =
     Inr (closed_orbit\<lparr>currSnapIndex := 6, xPlanet := Vec 2 1\<rparr>, coasted_globals)"
  by (simp add: snap_defs)

lemma closed_tick_7:
  "draw_orbit 0 1 (closed_orbit\<lparr>currSnapIndex := 6, xPlanet := Vec 2 1\<rparr>, coasted_globals) =
     Inr (closed_orbit\<lparr>currSnapIndex := 1, currSnapSubindex := 3, xPlanet := Vec 1 (- 3)\<rparr>,
          coasted_globals)"
  by (simp add: snap_defs)

section \<open>The tick: the first orbit\<close>

text \<open>
  C1. While \<^verbatim>\<open>isFirstOrbit\<close> holds, a tick appends the integrated position to
  \<^verbatim>\<open>firstOrbitPath\<close> and adds the absolute value of the angle between the previous
  point and the new one to \<^verbatim>\<open>angularChangeThisOrbit\<close>. While the sum stays at most
  \<open>2\<pi>\<close> nothing else changes. On the tick where it exceeds \<open>2\<pi>\<close> the tracker leaves the
  first orbit, \<^verbatim>\<open>indexCarryOver\<close> becomes the overshoot divided by the absolute angle
  between \<^verbatim>\<open>firstOrbitPath[1]\<close> and \<^verbatim>\<open>firstOrbitPath[0]\<close>, \<^verbatim>\<open>currSnapIndex\<close> becomes
  \<open>0\<close> and \<^verbatim>\<open>currSnapSubindex\<close> becomes \<^verbatim>\<open>indexCarryOver\<close>. The hypotheses say that
  the integrator returned, that the path was not empty and that the angles are numbers
  (no vector is zero, the first step's angle is not zero).
\<close>

theorem draw_first_orbit_tick:
  assumes live: "isFirstOrbit orb"
    and step: "updatePlanet_Iterative_Subdivided 5 25 G dt (orb, g) = Inr (orb1, g1)"
    and ne: "firstOrbitPath orb \<noteq> []"
    and ang: "angleBetween (last (firstOrbitPath orb)) (xPlanet orb1) = Inr ang"
  shows "(angularChangeThisOrbit orb + \<bar>ang\<bar> \<le> 2 * pi \<longrightarrow>
            draw_orbit G dt (orb, g) =
              Inr (orb\<lparr>xPlanet := xPlanet orb1, vPlanet := vPlanet orb1,
                       angularChangeThisOrbit := angularChangeThisOrbit orb + \<bar>ang\<bar>,
                       firstOrbitPath := firstOrbitPath orb @ [xPlanet orb1]\<rparr>, g1)) \<and>
         (angularChangeThisOrbit orb + \<bar>ang\<bar> > 2 * pi \<longrightarrow>
            (\<forall>fs. angleBetween ((firstOrbitPath orb @ [xPlanet orb1]) ! 1)
                               ((firstOrbitPath orb @ [xPlanet orb1]) ! 0) = Inr fs \<longrightarrow>
                  fs \<noteq> 0 \<longrightarrow>
               draw_orbit G dt (orb, g) =
                 Inr (orb\<lparr>xPlanet := xPlanet orb1, vPlanet := vPlanet orb1,
                          angularChangeThisOrbit := angularChangeThisOrbit orb + \<bar>ang\<bar>,
                          firstOrbitPath := firstOrbitPath orb @ [xPlanet orb1],
                          isFirstOrbit := False,
                          currSnapIndex := 0,
                          currSnapSubindex :=
                            (angularChangeThisOrbit orb + \<bar>ang\<bar> - 2 * pi) / \<bar>fs\<bar>,
                          indexCarryOver :=
                            (angularChangeThisOrbit orb + \<bar>ang\<bar> - 2 * pi) / \<bar>fs\<bar>\<rparr>, g1)))"
proof -
  have d: "draw_orbit G dt (orb, g) = draw_first_orbit G dt (orb, g)"
    using live by (simp add: draw_orbit_def)
  show ?thesis
    unfolding d draw_first_orbit_open [OF step ne ang]
    by (simp add: Let_def mult.commute)
qed

text \<open>
  The first tick after a launch with velocity \<open>(1, 1)\<close>, which does not close the orbit,
  and the tick from \<open>closing_orbit\<close>, which does; both with \<open>G = 0\<close> and \<open>dt = 1\<close>.
\<close>

theorem draw_first_orbit_tick_witness:
  "isFirstOrbit (createNewOrbit (Vec 1 1)) \<and>
   draw_orbit 0 1 (createNewOrbit (Vec 1 1), fresh_globals) =
     Inr ((createNewOrbit (Vec 1 1))\<lparr>xPlanet := Vec 1 0, angularChangeThisOrbit := pi / 2,
            firstOrbitPath := [Vec 0 (- 1), Vec 1 0]\<rparr>,
          \<lparr>vNext = Some (Vec 1 1), vAvg = Some (Vec 1 1), xNext = Some (Vec 1 0)\<rparr>) \<and>
   isFirstOrbit closing_orbit \<and>
   draw_orbit 0 1 (closing_orbit, fresh_globals) = Inr (closed_orbit, coasted_globals)"
proof -
  let ?o = "createNewOrbit (Vec 1 1)"
  have l0: "isFirstOrbit ?o" by (simp add: createNewOrbit_def)
  have ne0: "firstOrbitPath ?o \<noteq> []" by (simp add: createNewOrbit_def)
  have a0: "angleBetween (last (firstOrbitPath ?o)) (xPlanet (?o\<lparr>xPlanet := Vec 1 0\<rparr>)) = Inr (pi / 2)"
    by (simp add: createNewOrbit_def createVector_def angle_launch)
  have small: "angularChangeThisOrbit ?o + \<bar>pi / 2\<bar> \<le> 2 * pi"
    by (simp add: createNewOrbit_def)
  note t0 = draw_first_orbit_tick [OF l0 launch_step ne0 a0, THEN conjunct1, rule_format, OF small]
  have r0: "draw_orbit 0 1 (?o, fresh_globals) =
     Inr (?o\<lparr>xPlanet := Vec 1 0, angularChangeThisOrbit := pi / 2,
            firstOrbitPath := [Vec 0 (- 1), Vec 1 0]\<rparr>,
          \<lparr>vNext = Some (Vec 1 1), vAvg = Some (Vec 1 1), xNext = Some (Vec 1 0)\<rparr>)"
    unfolding t0 by (simp add: createNewOrbit_def createVector_def fresh_globals_def)
  have l1: "isFirstOrbit closing_orbit" by (simp add: closing_orbit_def)
  have ne1: "firstOrbitPath closing_orbit \<noteq> []" by (simp add: closing_orbit_def)
  have a1: "angleBetween (last (firstOrbitPath closing_orbit))
       (xPlanet (closing_orbit\<lparr>xPlanet := Vec 1 0\<rparr>)) = Inr (pi / 2)"
    by (simp add: closing_orbit_def angle_launch)
  have big: "angularChangeThisOrbit closing_orbit + \<bar>pi / 2\<bar> > 2 * pi"
    by (simp add: closing_orbit_def)
  have f1: "angleBetween ((firstOrbitPath closing_orbit @ [xPlanet (closing_orbit\<lparr>xPlanet := Vec 1 0\<rparr>)]) ! 1)
      ((firstOrbitPath closing_orbit @ [xPlanet (closing_orbit\<lparr>xPlanet := Vec 1 0\<rparr>)]) ! 0) = Inr (- (pi / 4))"
    by (simp add: closing_orbit_def angle_eighth)
  have nz: "- (pi / 4) \<noteq> 0" by simp
  note t1 = draw_first_orbit_tick [OF l1 closing_step_fresh ne1 a1, THEN conjunct2, rule_format,
      OF big f1 nz]
  have r1: "draw_orbit 0 1 (closing_orbit, fresh_globals) = Inr (closed_orbit, coasted_globals)"
    unfolding t1 by (simp add: closing_orbit_def closed_orbit_def)
  from l0 r0 l1 r1 show ?thesis by blast
qed

text \<open>
  C9. Nothing guards the division by \<^verbatim>\<open>firstStepAngle\<close>. On a closing tick, when the
  angle between \<^verbatim>\<open>firstOrbitPath[1]\<close> and \<^verbatim>\<open>firstOrbitPath[0]\<close> is not zero the tick
  returns and \<^verbatim>\<open>indexCarryOver\<close> is the quotient, a positive number; when the angle is
  zero a positive overshoot is divided by zero and \<^verbatim>\<open>indexCarryOver\<close> is not finite.
\<close>

theorem closing_division_unguarded:
  assumes live: "isFirstOrbit orb"
    and step: "updatePlanet_Iterative_Subdivided 5 25 G dt (orb, g) = Inr (orb1, g1)"
    and ne: "firstOrbitPath orb \<noteq> []"
    and ang: "angleBetween (last (firstOrbitPath orb)) (xPlanet orb1) = Inr ang"
    and closing: "angularChangeThisOrbit orb + \<bar>ang\<bar> > 2 * pi"
    and fs: "angleBetween ((firstOrbitPath orb @ [xPlanet orb1]) ! 1)
                          ((firstOrbitPath orb @ [xPlanet orb1]) ! 0) = Inr fs"
  shows "(fs \<noteq> 0 \<longrightarrow>
            (\<exists>orb'. draw_orbit G dt (orb, g) = Inr (orb', g1) \<and>
                    indexCarryOver orb' = (angularChangeThisOrbit orb + \<bar>ang\<bar> - 2 * pi) / \<bar>fs\<bar> \<and>
                    0 < indexCarryOver orb')) \<and>
         (fs = 0 \<longrightarrow> draw_orbit G dt (orb, g) = Inl NonFinite)"
proof -
  have d: "draw_orbit G dt (orb, g) = draw_first_orbit G dt (orb, g)"
    using live by (simp add: draw_orbit_def)
  have c: "pi * 2 < angularChangeThisOrbit orb + \<bar>ang\<bar>"
    using closing by (simp add: mult.commute)
  have fs': "angleBetween ((firstOrbitPath orb @ [xPlanet orb1]) ! Suc 0)
                          ((firstOrbitPath orb @ [xPlanet orb1]) ! 0) = Inr fs"
    using fs by simp
  show ?thesis
    unfolding d draw_first_orbit_open [OF step ne ang]
    using c by (simp add: Let_def fs' mult.commute)
qed

text \<open>
  From \<open>closing_orbit\<close> the first step's angle is an eighth of a turn and
  \<^verbatim>\<open>indexCarryOver\<close> is \<open>2\<close>; from \<open>radial_start_orbit\<close> the first two points lie on
  one ray and the quotient is not finite.
\<close>

theorem closing_division_unguarded_witness:
  "isFirstOrbit closing_orbit \<and>
   (\<exists>orb'. draw_orbit 0 1 (closing_orbit, fresh_globals) = Inr (orb', coasted_globals) \<and>
           indexCarryOver orb' = 2) \<and>
   isFirstOrbit radial_start_orbit \<and>
   draw_orbit 0 1 (radial_start_orbit, fresh_globals) = Inl NonFinite"
proof -
  have l1: "isFirstOrbit closing_orbit" by (simp add: closing_orbit_def)
  have ne1: "firstOrbitPath closing_orbit \<noteq> []" by (simp add: closing_orbit_def)
  have a1: "angleBetween (last (firstOrbitPath closing_orbit))
       (xPlanet (closing_orbit\<lparr>xPlanet := Vec 1 0\<rparr>)) = Inr (pi / 2)"
    by (simp add: closing_orbit_def angle_launch)
  have big: "angularChangeThisOrbit closing_orbit + \<bar>pi / 2\<bar> > 2 * pi"
    by (simp add: closing_orbit_def)
  have f1: "angleBetween ((firstOrbitPath closing_orbit @ [xPlanet (closing_orbit\<lparr>xPlanet := Vec 1 0\<rparr>)]) ! 1)
      ((firstOrbitPath closing_orbit @ [xPlanet (closing_orbit\<lparr>xPlanet := Vec 1 0\<rparr>)]) ! 0) = Inr (- (pi / 4))"
    by (simp add: closing_orbit_def angle_eighth)
  have nz: "- (pi / 4) \<noteq> 0" by simp
  note t1 = closing_division_unguarded [OF l1 closing_step_fresh ne1 a1 big f1, THEN conjunct1,
      rule_format, OF nz]
  have q: "(angularChangeThisOrbit closing_orbit + \<bar>pi / 2\<bar> - 2 * pi) / \<bar>- (pi / 4)\<bar> = 2"
    by (simp add: closing_orbit_def)
  have r1: "\<exists>orb'. draw_orbit 0 1 (closing_orbit, fresh_globals) = Inr (orb', coasted_globals) \<and>
           indexCarryOver orb' = 2"
    using t1 unfolding q by blast
  have l2: "isFirstOrbit radial_start_orbit" by (simp add: radial_start_orbit_def closing_orbit_def)
  have ne2: "firstOrbitPath radial_start_orbit \<noteq> []" by (simp add: radial_start_orbit_def)
  have a2: "angleBetween (last (firstOrbitPath radial_start_orbit))
       (xPlanet (radial_start_orbit\<lparr>xPlanet := Vec 1 0\<rparr>)) = Inr (pi / 2)"
    by (simp add: radial_start_orbit_def angle_launch)
  have big2: "angularChangeThisOrbit radial_start_orbit + \<bar>pi / 2\<bar> > 2 * pi"
    by (simp add: radial_start_orbit_def closing_orbit_def)
  have f2: "angleBetween ((firstOrbitPath radial_start_orbit @ [xPlanet (radial_start_orbit\<lparr>xPlanet := Vec 1 0\<rparr>)]) ! 1)
      ((firstOrbitPath radial_start_orbit @ [xPlanet (radial_start_orbit\<lparr>xPlanet := Vec 1 0\<rparr>)]) ! 0) = Inr 0"
    by (simp add: radial_start_orbit_def angle_parallel)
  note t2 = closing_division_unguarded [OF l2 radial_start_step_fresh ne2 a2 big2 f2, THEN conjunct2,
      rule_format, OF refl]
  from l1 r1 l2 t2 show ?thesis by blast
qed

text \<open>
  C5. Along a run that starts in the first orbit with an accumulated angle of at most
  \<open>2\<pi>\<close> (as \<^verbatim>\<open>createNewOrbit\<close> leaves it), the accumulated angle never decreases; after
  any number of ticks the tracker is in its first orbit exactly when the accumulated angle
  is at most \<open>2\<pi>\<close>, so it leaves the first orbit on the first tick where the angle
  exceeds \<open>2\<pi>\<close>; and once it has left, no later tick brings it back or changes the
  accumulated angle.
\<close>

theorem closure_happens_once:
  assumes "isFirstOrbit orb" and "angularChangeThisOrbit orb \<le> 2 * pi"
    and "ticks n G dt (orb, g) = Inr (orb_n, g_n)"
    and "ticks m G dt (orb_n, g_n) = Inr (orb_m, g_m)"
  shows "angularChangeThisOrbit orb_n \<le> angularChangeThisOrbit orb_m \<and>
         (isFirstOrbit orb_n \<longleftrightarrow> angularChangeThisOrbit orb_n \<le> 2 * pi) \<and>
         (\<not> isFirstOrbit orb_n \<longrightarrow>
            \<not> isFirstOrbit orb_m \<and> angularChangeThisOrbit orb_m = angularChangeThisOrbit orb_n)"
proof (intro conjI impI)
  show "angularChangeThisOrbit orb_n \<le> angularChangeThisOrbit orb_m"
    using assms(4) by (rule ticks_acc_mono)
  show "isFirstOrbit orb_n \<longleftrightarrow> angularChangeThisOrbit orb_n \<le> 2 * pi"
    using assms(1,2,3) ticks_mode_invariant [of orb n G dt g orb_n g_n] by simp
  assume s: "\<not> isFirstOrbit orb_n"
  show "\<not> isFirstOrbit orb_m"
    using ticks_stay_snapped [OF s assms(4)] by simp
  show "angularChangeThisOrbit orb_m = angularChangeThisOrbit orb_n"
    using ticks_stay_snapped [OF s assms(4)] by simp
qed

text \<open>The closing tick from \<open>closing_orbit\<close>, then one tick of replay.\<close>

theorem closure_happens_once_witness:
  "isFirstOrbit closing_orbit \<and>
   angularChangeThisOrbit closing_orbit \<le> 2 * pi \<and>
   ticks 1 0 1 (closing_orbit, fresh_globals) = Inr (closed_orbit, coasted_globals) \<and>
   ticks 1 0 1 (closed_orbit, coasted_globals) =
     Inr (closed_orbit\<lparr>currSnapIndex := 1, xPlanet := Vec 1 (- 2)\<rparr>, coasted_globals) \<and>
   angularChangeThisOrbit closed_orbit
     \<le> angularChangeThisOrbit (closed_orbit\<lparr>currSnapIndex := 1, xPlanet := Vec 1 (- 2)\<rparr>) \<and>
   (isFirstOrbit closed_orbit \<longleftrightarrow> angularChangeThisOrbit closed_orbit \<le> 2 * pi) \<and>
   \<not> isFirstOrbit closed_orbit \<and>
   \<not> isFirstOrbit (closed_orbit\<lparr>currSnapIndex := 1, xPlanet := Vec 1 (- 2)\<rparr>)"
proof -
  have l: "isFirstOrbit closing_orbit" and a: "angularChangeThisOrbit closing_orbit \<le> 2 * pi"
    by (simp_all add: closing_orbit_def)
  have s: "\<not> isFirstOrbit closed_orbit" by (simp add: closed_orbit_def)
  note t = closure_happens_once [OF l a closing_one_tick closed_one_tick]
  from l a s closing_one_tick closed_one_tick t show ?thesis by blast
qed

section \<open>The tick: replay\<close>

text \<open>
  C6. Once the first orbit is over, any number of ticks changes only \<^verbatim>\<open>xPlanet\<close>,
  \<^verbatim>\<open>currSnapIndex\<close> and \<^verbatim>\<open>currSnapSubindex\<close>: the velocity, the recorded path and
  every other field are as before, and so are the globals of the integrator, which is
  not called.
\<close>

theorem snapped_replay_frame:
  assumes "\<not> isFirstOrbit orb" and "ticks m G dt (orb, g) = Inr (orb', g')"
  shows "orb' = orb\<lparr>currSnapIndex := currSnapIndex orb',
                    currSnapSubindex := currSnapSubindex orb',
                    xPlanet := xPlanet orb'\<rparr> \<and>
         g' = g \<and> vPlanet orb' = vPlanet orb \<and> firstOrbitPath orb' = firstOrbitPath orb"
proof -
  note f = ticks_stay_framed [OF assms]
  then have e: "orb' = orb\<lparr>currSnapIndex := currSnapIndex orb',
                    currSnapSubindex := currSnapSubindex orb',
                    xPlanet := xPlanet orb'\<rparr>" by simp
  have "vPlanet orb' = vPlanet orb" "firstOrbitPath orb' = firstOrbitPath orb"
    by (subst e, simp)+
  with f show ?thesis by simp
qed

text \<open>Two ticks from \<open>replaying_orbit\<close>, the first of which wraps around the path.\<close>

theorem snapped_replay_frame_witness:
  "\<not> isFirstOrbit replaying_orbit \<and>
   ticks 2 1 (11 / 1000) (replaying_orbit, fresh_globals) =
     Inr (replaying_orbit\<lparr>currSnapIndex := 2, currSnapSubindex := 0,
            xPlanet := Vec (- 1) 0\<rparr>, fresh_globals) \<and>
   vPlanet (replaying_orbit\<lparr>currSnapIndex := 2, currSnapSubindex := 0,
              xPlanet := Vec (- 1) 0\<rparr>) = vPlanet replaying_orbit \<and>
   firstOrbitPath (replaying_orbit\<lparr>currSnapIndex := 2, currSnapSubindex := 0,
              xPlanet := Vec (- 1) 0\<rparr>) = firstOrbitPath replaying_orbit"
proof -
  have s: "\<not> isFirstOrbit replaying_orbit" by (simp add: replaying_orbit_def)
  note t = snapped_replay_frame [OF s replay_two_ticks]
  from s replay_two_ticks t show ?thesis by blast
qed

text \<open>
  C3. \<^verbatim>\<open>currSnapSubindex\<close> does not always lie in \<open>[0, 1)\<close>. The closing tick stores
  the quotient \<^verbatim>\<open>indexCarryOver\<close> in it as it is, and the quotient is \<open>1\<close> or more when
  the overshoot is at least the first step's angle: from \<open>closing_orbit\<close> the overshoot
  is a quarter turn, the first step an eighth, and the subindex is \<open>2\<close>. The wrap adds
  \<^verbatim>\<open>indexCarryOver\<close> and subtracts \<open>1\<close> once: seven ticks later the subindex is
  \<open>3\<close>.
\<close>

theorem closing_tick_subindex_above_one:
  "draw_orbit 0 1 (closing_orbit, fresh_globals) = Inr (closed_orbit, coasted_globals) \<and>
   currSnapSubindex closed_orbit = 2 \<and>
   ticks 8 0 1 (closing_orbit, fresh_globals) =
     Inr (closed_orbit\<lparr>currSnapIndex := 1, currSnapSubindex := 3, xPlanet := Vec 1 (- 3)\<rparr>,
          coasted_globals)"
proof -
  have eight: "(8::nat) = Suc (Suc (Suc (Suc (Suc (Suc (Suc (Suc 0)))))))" by simp
  have "ticks 8 0 1 (closing_orbit, fresh_globals) =
     Inr (closed_orbit\<lparr>currSnapIndex := 1, currSnapSubindex := 3, xPlanet := Vec 1 (- 3)\<rparr>,
          coasted_globals)"
    unfolding eight
    by (simp only: ticks.simps closing_tick_closed closed_tick_1 closed_tick_2 closed_tick_3
        closed_tick_4 closed_tick_5 closed_tick_6 closed_tick_7 sum.case)
  moreover have "currSnapSubindex closed_orbit = 2" by (simp add: closed_orbit_def)
  ultimately show ?thesis using closing_tick_closed by blast
qed

text \<open>
  What the wrap does keep: when \<^verbatim>\<open>indexCarryOver\<close> and \<^verbatim>\<open>currSnapSubindex\<close> are both in
  \<open>[0, 1)\<close> before a tick of replay, the tick returns and both are in \<open>[0, 1)\<close> after it.
\<close>

lemma draw_snap_keeps_subindex:
  assumes "\<not> isFirstOrbit orb"
    and "0 \<le> indexCarryOver orb" "indexCarryOver orb < 1"
    and "0 \<le> currSnapSubindex orb" "currSnapSubindex orb < 1"
    and "currSnapIndex orb < length (firstOrbitPath orb)" "2 \<le> length (firstOrbitPath orb)"
  shows "\<exists>orb'. draw_orbit G dt (orb, g) = Inr (orb', g) \<and>
           0 \<le> currSnapSubindex orb' \<and> currSnapSubindex orb' < 1 \<and>
           currSnapIndex orb' < length (firstOrbitPath orb') \<and>
           indexCarryOver orb' = indexCarryOver orb \<and>
           firstOrbitPath orb' = firstOrbitPath orb \<and> \<not> isFirstOrbit orb'"
  using assms
  by (auto simp: draw_orbit_def draw_snap_def interpolatePosition_def Let_def)


end
